theory Spec2Isabelle
  imports Main "HOL-Library.Word"
begin

section \<open>The MQTT v5 client core of paho/client.go\<close>

text \<open>
  The client of \<^verbatim>\<open>paho/client.go\<close> as state-passing functions over a record of
  the \<^verbatim>\<open>Client\<close> struct. Go's \<^verbatim>\<open>(value, error)\<close> results are pairs of
  options (\<open>None\<close> is \<^verbatim>\<open>nil\<close>). A \<^verbatim>\<open>select\<close> between a context and a reply
  channel takes the branch that fired as an argument. Goroutines started with
  \<^verbatim>\<open>go\<close> are recorded in the state (\<open>workers\<close>, \<open>routed\<close>, \<open>pinger\<close>);
  the session mutex is not modelled.
\<close>

subsection \<open>Machine integers\<close>

type_synonym byte = "8 word"
type_synonym uint16 = "16 word"
type_synonym uint32 = "32 word"

subsection \<open>Errors\<close>

text \<open>
  One constructor for each error the source builds with \<^verbatim>\<open>fmt.Errorf\<close> or passes
  on, carrying the values the message is formatted with. \<open>Panic\<close> stands for a
  run-time panic (nil dereference, semaphore released more than held).
\<close>

datatype error =
    ErrConnNil                  \<comment> \<open>"Client connection is nil"\<close>
  | ErrClosedConn               \<comment> \<open>the transport's error for a write after Close\<close>
  | DeadlineExceeded            \<comment> \<open>context.DeadlineExceeded\<close>
  | ErrConnectFailed string     \<comment> \<open>"Failed to connect to server: %s"\<close>
  | ErrNoWildcards string       \<comment> \<open>"Cannot subscribe to %s, server does not support wildcards"\<close>
  | ErrNoSubID                  \<comment> \<open>"Cannot send subscribe with subID set, ..."\<close>
  | ErrNoSharedSub string       \<comment> \<open>"Cannont subscribe to %s, server does not support shared subscriptions"\<close>
  | ErrNotSuback byte           \<comment> \<open>"Received %d instead of Suback"\<close>
  | ErrSubscribeFailed string   \<comment> \<open>"Failed to subscribe to topic: %s"\<close>
  | ErrSubscriptionFailed       \<comment> \<open>"At least one requested subscription failed"\<close>
  | ErrNotUnsuback byte         \<comment> \<open>"Received %d instead of Unsuback"\<close>
  | ErrUnsubscribeFailed string \<comment> \<open>"Failed to unsubscribe from topic: %s"\<close>
  | ErrUnsubscriptionFailed     \<comment> \<open>"At least one requested unsubscribe failed"\<close>
  | ErrMaxQoS byte byte         \<comment> \<open>"Cannot send Publish with QoS %d, server maximum QoS is %d"\<close>
  | ErrTopicAlias uint16 uint16 \<comment> \<open>"Cannot send publish with TopicAlias %d, ..."\<close>
  | ErrNoRetain                 \<comment> \<open>"Cannot send Publish with retain flag set, ..."\<close>
  | ErrOops                     \<comment> \<open>"oops"\<close>
  | ErrNotPuback byte           \<comment> \<open>"Received %d instead of PUBACK"\<close>
  | ErrPublishing byte          \<comment> \<open>"Error publishing: %s", of the PUBACK's reason\<close>
  | ErrNotPubcomp byte          \<comment> \<open>"Received %d instead of PUBCOMP"\<close>
  | ErrNonQoS12 byte            \<comment> \<open>"Ended up with a non QoS1/2 message: %d"\<close>
  | Panic

subsection \<open>Packets\<close>

text \<open>
  The packets package is a collaborator. A control packet is a datatype with one
  constructor for each packet type, holding the fields the client reads or sets; the
  conversions between the codec's structs and the client's (\<^verbatim>\<open>SubackFromPacketSuback\<close>
  and the like) keep those fields and are left out.
\<close>

record CommsProperties =
  ReceiveMaximum :: uint16
  MaximumQoS :: byte
  MaximumPacketSize :: uint32
  TopicAliasMaximum :: uint16
  RetainAvailable :: bool
  WildcardSubAvailable :: bool
  SubIDAvailable :: bool
  SharedSubAvailable :: bool

record ConnectProperties =
  cp_MaximumPacketSize :: "uint32 option"
  cp_MaximumQOS :: "byte option"
  cp_ReceiveMaximum :: "uint16 option"
  cp_TopicAliasMaximum :: "uint16 option"

record Connect_msg =
  cp_KeepAlive :: uint16
  cp_ClientID :: string
  cp_Properties :: "ConnectProperties option"

record ConnackProperties =
  ca_ServerKeepAlive :: "uint16 option"
  ca_AssignedClientID :: string
  ca_ReasonString :: string
  ca_ReceiveMaximum :: "uint16 option"
  ca_MaximumQoS :: "byte option"
  ca_MaximumPacketSize :: "uint32 option"
  ca_TopicAliasMaximum :: "uint16 option"
  ca_RetainAvailable :: bool
  ca_WildcardSubAvailable :: bool
  ca_SubIDAvailable :: bool
  ca_SharedSubAvailable :: bool

record Connack =
  ca_ReasonCode :: byte
  ca_Properties :: "ConnackProperties option"

record Publish_msg =
  pb_QoS :: byte
  pb_Retain :: bool
  pb_Topic :: string
  pb_TopicAlias :: "uint16 option option"
    \<comment> \<open>\<open>None\<close>: Properties is nil; \<open>Some None\<close>: Properties set, TopicAlias nil\<close>
  pb_Payload :: "byte list"

record PublishResponse =
  pr_ReasonCode :: byte

record Subscribe_msg =
  Subscriptions :: "(string \<times> byte) list"
    \<comment> \<open>the map from topic filter to options (its QoS), in the order the range loop visits it\<close>
  sub_SubscriptionIdentifier :: "uint32 option option"
    \<comment> \<open>\<open>None\<close>: Properties is nil; \<open>Some None\<close>: Properties set, identifier nil\<close>

record Suback =
  sa_Reasons :: "byte list"
  sa_ReasonString :: "string option"
    \<comment> \<open>\<open>None\<close>: Properties is nil\<close>

record Unsubscribe_msg =
  Topics :: "string list"

record Unsuback =
  ua_Reasons :: "byte list"
  ua_ReasonString :: "string option"

record Auth =
  au_ReasonCode :: byte
  au_AuthData :: "byte list"

record Disconnect_msg =
  dc_ReasonCode :: byte
  dc_ReasonString :: string

datatype ControlPacket =
    ConnectPkt string byte Connect_msg  \<comment> \<open>protocol name, protocol version, parameters\<close>
  | ConnackPkt Connack
  | PublishPkt uint16 Publish_msg       \<comment> \<open>packet id, publication\<close>
  | PubackPkt uint16 byte               \<comment> \<open>packet id, reason code\<close>
  | PubrecPkt uint16 byte
  | PubrelPkt uint16 byte
  | PubcompPkt uint16 byte
  | SubscribePkt uint16 Subscribe_msg
  | SubackPkt uint16 Suback
  | UnsubscribePkt uint16 Unsubscribe_msg
  | UnsubackPkt uint16 Unsuback
  | PingreqPkt
  | PingrespPkt
  | DisconnectPkt Disconnect_msg
  | AuthPkt Auth

text \<open>The packet type numbers of MQTT; the zero value of a control packet has type 0.\<close>

fun Type :: "ControlPacket option \<Rightarrow> byte" where
  "Type None = 0"
| "Type (Some (ConnectPkt _ _ _)) = 1"
| "Type (Some (ConnackPkt _)) = 2"
| "Type (Some (PublishPkt _ _)) = 3"
| "Type (Some (PubackPkt _ _)) = 4"
| "Type (Some (PubrecPkt _ _)) = 5"
| "Type (Some (PubrelPkt _ _)) = 6"
| "Type (Some (PubcompPkt _ _)) = 7"
| "Type (Some (SubscribePkt _ _)) = 8"
| "Type (Some (SubackPkt _ _)) = 9"
| "Type (Some (UnsubscribePkt _ _)) = 10"
| "Type (Some (UnsubackPkt _ _)) = 11"
| "Type (Some PingreqPkt) = 12"
| "Type (Some PingrespPkt) = 13"
| "Type (Some (DisconnectPkt _)) = 14"
| "Type (Some (AuthPkt _)) = 15"

subsection \<open>Collaborators: transport, semaphore, packet-id registry, select\<close>

text \<open>
  The transport (\<^verbatim>\<open>net.Conn\<close>) keeps the packets written to it, whether it has
  been closed, and how often \<^verbatim>\<open>Close\<close> was called. A write after \<^verbatim>\<open>Close\<close>
  fails and writes nothing.
\<close>

record conn =
  wire :: "ControlPacket list"
  conn_closed :: bool
  close_calls :: nat

definition conn_WriteTo :: "ControlPacket \<Rightarrow> conn \<Rightarrow> error option \<times> conn" where
  "conn_WriteTo p k =
     (if conn_closed k then (Some ErrClosedConn, k)
      else (None, k\<lparr>wire := wire k @ [p]\<rparr>))"

definition conn_Close :: "conn \<Rightarrow> conn" where
  "conn_Close k = k\<lparr>conn_closed := True, close_calls := Suc (close_calls k)\<rparr>"

text \<open>
  \<^verbatim>\<open>semaphore.Weighted\<close>: \<^verbatim>\<open>Acquire(ctx, 1)\<close> takes a permit when one is free;
  otherwise it waits, and with no other caller to release one it ends with the
  context's deadline. \<^verbatim>\<open>Release(1)\<close> panics when nothing is held.
\<close>

record Weighted =
  w_size :: int
  w_cur :: int

definition NewWeighted :: "int \<Rightarrow> Weighted" where
  "NewWeighted n = \<lparr>w_size = n, w_cur = 0\<rparr>"

definition Acquire :: "Weighted \<Rightarrow> error option \<times> Weighted" where
  "Acquire s =
     (if w_size s - w_cur s \<ge> 1 then (None, s\<lparr>w_cur := w_cur s + 1\<rparr>)
      else (Some DeadlineExceeded, s))"

definition Release :: "Weighted \<Rightarrow> Weighted option" where
  "Release s = (if w_cur s - 1 < 0 then None else Some (s\<lparr>w_cur := w_cur s - 1\<rparr>))"

text \<open>
  The packet-id registry behind the \<^verbatim>\<open>MIDService\<close> interface: \<open>index\<close> maps an id
  to the buffer of its waiter's reply channel (capacity 1), and \<open>alloc\<close> is the
  allocation policy of the implementation plugged in.
\<close>

record MIDService =
  index :: "uint16 \<rightharpoonup> ControlPacket list"
  alloc :: "(uint16 \<rightharpoonup> ControlPacket list) \<Rightarrow> uint16"

definition Request :: "MIDService \<Rightarrow> uint16 \<times> MIDService" where
  "Request m = (let i = alloc m (index m) in (i, m\<lparr>index := (index m)(i \<mapsto> [])\<rparr>))"

definition Get :: "MIDService \<Rightarrow> uint16 \<Rightarrow> ControlPacket list option" where
  "Get m i = index m i"

text \<open>
  The branch of a \<^verbatim>\<open>select\<close> that fired: the context is done (by its deadline, or
  cancelled by the caller), or a value arrived on the reply channel.
\<close>

datatype 'a select = DoneDeadline | DoneCanceled | Recv 'a


text \<open>A send on a channel of capacity 1: \<open>None\<close> when the buffer is full (the sender blocks).\<close>

definition send :: "'a \<Rightarrow> 'a list \<Rightarrow> 'a list option" where
  "send x buf = (case buf of [] \<Rightarrow> Some [x] | _ \<Rightarrow> None)"

text \<open>\<^verbatim>\<open>strings.IndexAny\<close> and \<^verbatim>\<open>strings.HasPrefix\<close>, on byte strings.\<close>

fun IndexAny :: "string \<Rightarrow> string \<Rightarrow> int" where
  "IndexAny [] chars = -1"
| "IndexAny (x # xs) chars =
     (if x \<in> set chars then 0
      else (let r = IndexAny xs chars in if r < 0 then -1 else r + 1))"

definition HasPrefix :: "string \<Rightarrow> string \<Rightarrow> bool" where
  "HasPrefix s pre = (length pre \<le> length s \<and> take (length pre) s = pre)"

subsection \<open>The client\<close>

record Client =
  caCtx :: "Connack list option"
    \<comment> \<open>the handshake waiter: \<open>None\<close> is nil, \<open>Some buf\<close> the buffer of its channel\<close>
  raCtx :: "ControlPacket list option"
  stop :: bool
    \<comment> \<open>whether the stop channel has been closed\<close>
  workers :: nat
    \<comment> \<open>the goroutines added to the wait group\<close>
  serverProps :: CommsProperties
  clientProps :: CommsProperties
  serverInflight :: "Weighted option"
  clientInflight :: "Weighted option"
  ClientID :: string
  Conn :: "conn option"
  MIDs :: MIDService
  AuthHandler :: "(Auth \<Rightarrow> Auth) option"
    \<comment> \<open>the Auther's \<^verbatim>\<open>Authenticate\<close>, when a handler is set\<close>
  authenticated :: nat
    \<comment> \<open>calls of the Auther's \<^verbatim>\<open>Authenticated\<close>\<close>
  pinger :: "uint16 option"
    \<comment> \<open>\<open>Some k\<close>: \<^verbatim>\<open>PingHandler.Start\<close> was called with keep-alive k seconds\<close>
  pinger_stops :: nat
  routed :: "Publish_msg list"
    \<comment> \<open>the publications handed to \<^verbatim>\<open>Router.Route\<close>\<close>
  OnDisconnect :: bool
    \<comment> \<open>whether a callback is set\<close>
  disconnected :: "Disconnect_msg list"
    \<comment> \<open>the packets the callback was called with\<close>

text \<open>
  \<^verbatim>\<open>NewClient\<close>. The allocation policy of the default registry is its argument,
  as \<^verbatim>\<open>MIDs.Request\<close> is not part of the source file.
\<close>

definition NewClient :: "((uint16 \<rightharpoonup> ControlPacket list) \<Rightarrow> uint16) \<Rightarrow> Client" where
  "NewClient policy =
     \<lparr>caCtx = None, raCtx = None, stop = False, workers = 0,
      serverProps =
        \<lparr>ReceiveMaximum = 65535, MaximumQoS = 2, MaximumPacketSize = 0,
         TopicAliasMaximum = 0, RetainAvailable = True, WildcardSubAvailable = True,
         SubIDAvailable = True, SharedSubAvailable = True\<rparr>,
      clientProps =
        \<lparr>ReceiveMaximum = 65535, MaximumQoS = 2, MaximumPacketSize = 0,
         TopicAliasMaximum = 0, RetainAvailable = False, WildcardSubAvailable = False,
         SubIDAvailable = False, SharedSubAvailable = False\<rparr>,
      serverInflight = None, clientInflight = None, ClientID = [], Conn = None,
      MIDs = \<lparr>index = Map.empty, alloc = policy\<rparr>,
      AuthHandler = None, authenticated = 0, pinger = None, pinger_stops = 0,
      routed = [], OnDisconnect = False, disconnected = []\<rparr>"

text \<open>A write of the client to its transport; a nil \<^verbatim>\<open>Conn\<close> panics.\<close>

definition WriteTo :: "ControlPacket \<Rightarrow> Client \<Rightarrow> error option \<times> Client" where
  "WriteTo p c =
     (case Conn c of
        None \<Rightarrow> (Some Panic, c)
      | Some k \<Rightarrow> (case conn_WriteTo p k of (e, k') \<Rightarrow> (e, c\<lparr>Conn := Some k'\<rparr>)))"

text \<open>\<^verbatim>\<open>Client.Error\<close>: close the stop channel if it is open, stop the pinger, close the transport.\<close>

definition Error :: "Client \<Rightarrow> Client" where
  "Error c =
     c\<lparr>stop := True, pinger_stops := Suc (pinger_stops c),
       Conn := map_option conn_Close (Conn c)\<rparr>"

subsection \<open>Connect\<close>

text \<open>The client's own properties, taken from the CONNECT parameters (lines 122 to 135).\<close>

definition client_props :: "ConnectProperties option \<Rightarrow> CommsProperties \<Rightarrow> CommsProperties" where
  "client_props ps cl =
     (case ps of
        None \<Rightarrow> cl
      | Some p \<Rightarrow>
          (let cl1 = (case cp_MaximumPacketSize p of None \<Rightarrow> cl
                      | Some v \<Rightarrow> cl\<lparr>MaximumPacketSize := v\<rparr>);
               cl2 = (case cp_MaximumQOS p of None \<Rightarrow> cl1
                      | Some v \<Rightarrow> cl1\<lparr>MaximumQoS := v\<rparr>);
               cl3 = (case cp_ReceiveMaximum p of None \<Rightarrow> cl2
                      | Some v \<Rightarrow> cl2\<lparr>ReceiveMaximum := v\<rparr>)
           in (case cp_TopicAliasMaximum p of None \<Rightarrow> cl3
               | Some v \<Rightarrow> cl3\<lparr>TopicAliasMaximum := v\<rparr>)))"

text \<open>The server's properties, taken from the CONNACK (lines 190 to 205).\<close>

definition server_props :: "ConnackProperties \<Rightarrow> CommsProperties \<Rightarrow> CommsProperties" where
  "server_props p sv =
     (let sv1 = (case ca_ReceiveMaximum p of None \<Rightarrow> sv
                 | Some v \<Rightarrow> sv\<lparr>ReceiveMaximum := v\<rparr>);
          sv2 = (case ca_MaximumQoS p of None \<Rightarrow> sv1
                 | Some v \<Rightarrow> sv1\<lparr>MaximumQoS := v\<rparr>);
          sv3 = (case ca_MaximumPacketSize p of None \<Rightarrow> sv2
                 | Some v \<Rightarrow> sv2\<lparr>MaximumPacketSize := v\<rparr>);
          sv4 = (case ca_TopicAliasMaximum p of None \<Rightarrow> sv3
                 | Some v \<Rightarrow> sv3\<lparr>TopicAliasMaximum := v\<rparr>)
      in sv4\<lparr>RetainAvailable := ca_RetainAvailable p,
              WildcardSubAvailable := ca_WildcardSubAvailable p,
              SubIDAvailable := ca_SubIDAvailable p,
              SharedSubAvailable := ca_SharedSubAvailable p\<rparr>)"

text \<open>
  \<^verbatim>\<open>Client.Connect\<close>. \<open>sel\<close> is the branch of the select on the CONNACK. When
  the context is cancelled, not timed out, the select falls through with a nil
  CONNACK, and reading it panics. The deferred reset of \<open>caCtx\<close> runs on every
  return after it is set.
\<close>

definition Connect ::
  "Client \<Rightarrow> Connect_msg \<Rightarrow> Connack select \<Rightarrow> Client \<times> Connack option \<times> error option" where
  "Connect c cp sel =
     (if Conn c = None then (c, None, Some ErrConnNil)
      else
        (let keepalive = cp_KeepAlive cp;
             c1 = c\<lparr>ClientID := cp_ClientID cp,
                    clientProps := client_props (cp_Properties cp) (clientProps c)\<rparr>;
             c2 = c1\<lparr>workers := Suc (workers c1)\<rparr>;
             c3 = c2\<lparr>caCtx := Some []\<rparr>;
             (werr, c4) = WriteTo (ConnectPkt ''MQTT'' 5 cp) c3
         in (case werr of
               Some e \<Rightarrow> (c4\<lparr>caCtx := None\<rparr>, None, Some e)
             | None \<Rightarrow>
                (case sel of
                   DoneDeadline \<Rightarrow> (c4\<lparr>caCtx := None\<rparr>, None, Some DeadlineExceeded)
                 | DoneCanceled \<Rightarrow> (c4\<lparr>caCtx := None\<rparr>, None, Some Panic)
                 | Recv ca \<Rightarrow>
                    (if ca_ReasonCode ca \<ge> 0x80 then
                       (c4\<lparr>caCtx := None\<rparr>, Some ca,
                        Some (ErrConnectFailed
                          (case ca_Properties ca of None \<Rightarrow> []
                           | Some p \<Rightarrow> ca_ReasonString p)))
                     else
                       (let keepalive' =
                              (case ca_Properties ca of None \<Rightarrow> keepalive
                               | Some p \<Rightarrow> (case ca_ServerKeepAlive p of
                                    None \<Rightarrow> keepalive | Some k \<Rightarrow> k));
                            c5 = (case ca_Properties ca of None \<Rightarrow> c4
                                  | Some p \<Rightarrow>
                                      c4\<lparr>ClientID :=
                                           (if ca_AssignedClientID p \<noteq> []
                                            then ca_AssignedClientID p else ClientID c4),
                                         serverProps := server_props p (serverProps c4)\<rparr>);
                            c6 = c5\<lparr>serverInflight :=
                                      Some (NewWeighted (uint (ReceiveMaximum (serverProps c5)))),
                                    clientInflight :=
                                      Some (NewWeighted (uint (ReceiveMaximum (clientProps c5))))\<rparr>;
                            c7 = c6\<lparr>workers := Suc (workers c6), pinger := Some keepalive'\<rparr>
                        in (c7\<lparr>caCtx := None\<rparr>, Some ca, None)))))))"

subsection \<open>Subscribe and Unsubscribe\<close>

text \<open>
  \<^verbatim>\<open>Client.Subscribe\<close>. The two range loops return at the first filter they
  reject; \<open>sel\<close> is the branch of the select on the SUBACK. A cancelled context
  leaves the zero control packet, of type 0.
\<close>

definition Subscribe ::
  "Client \<Rightarrow> Subscribe_msg \<Rightarrow> ControlPacket select \<Rightarrow> Client \<times> Suback option \<times> error option" where
  "Subscribe c s sel =
     (case (if \<not> WildcardSubAvailable (serverProps c)
            then find (\<lambda>t. IndexAny t ''#+'' > -1) (map fst (Subscriptions s))
            else None) of
        Some t \<Rightarrow> (c, None, Some (ErrNoWildcards t))
      | None \<Rightarrow>
         (if \<not> SubIDAvailable (serverProps c) \<and>
             (case sub_SubscriptionIdentifier s of Some (Some _) \<Rightarrow> True | _ \<Rightarrow> False)
          then (c, None, Some ErrNoSubID)
          else
            (case (if \<not> SharedSubAvailable (serverProps c)
                   then find (\<lambda>t. HasPrefix t ''$share'') (map fst (Subscriptions s))
                   else None) of
               Some t \<Rightarrow> (c, None, Some (ErrNoSharedSub t))
             | None \<Rightarrow>
                (let (mid, m) = Request (MIDs c);
                     c1 = c\<lparr>MIDs := m\<rparr>;
                     (werr, c2) = WriteTo (SubscribePkt mid s) c1
                 in (case werr of
                       Some e \<Rightarrow> (c2, None, Some e)
                     | None \<Rightarrow>
                        (case sel of
                           DoneDeadline \<Rightarrow> (c2, None, Some DeadlineExceeded)
                         | DoneCanceled \<Rightarrow> (c2, None, Some (ErrNotSuback (Type None)))
                         | Recv sap \<Rightarrow>
                            (case sap of
                               SubackPkt i sa \<Rightarrow>
                                 (if length (sa_Reasons sa) = 1 then
                                    (if sa_Reasons sa ! 0 \<ge> 0x80 then
                                       (c2, Some sa,
                                        Some (ErrSubscribeFailed
                                          (case sa_ReasonString sa of None \<Rightarrow> []
                                           | Some r \<Rightarrow> r)))
                                     else (c2, Some sa, None))
                                  else
                                    (if list_ex (\<lambda>code. code \<ge> 0x80) (sa_Reasons sa)
                                     then (c2, Some sa, Some ErrSubscriptionFailed)
                                     else (c2, Some sa, None)))
                             | _ \<Rightarrow> (c2, None, Some (ErrNotSuback (Type (Some sap)))))))))))"

text \<open>\<^verbatim>\<open>Client.Unsubscribe\<close>.\<close>

definition Unsubscribe ::
  "Client \<Rightarrow> Unsubscribe_msg \<Rightarrow> ControlPacket select \<Rightarrow>
     Client \<times> Unsuback option \<times> error option" where
  "Unsubscribe c u sel =
     (let (mid, m) = Request (MIDs c);
          c1 = c\<lparr>MIDs := m\<rparr>;
          (werr, c2) = WriteTo (UnsubscribePkt mid u) c1
      in (case werr of
            Some e \<Rightarrow> (c2, None, Some e)
          | None \<Rightarrow>
             (case sel of
                DoneDeadline \<Rightarrow> (c2, None, Some DeadlineExceeded)
              | DoneCanceled \<Rightarrow> (c2, None, Some (ErrNotUnsuback (Type None)))
              | Recv uap \<Rightarrow>
                 (case uap of
                    UnsubackPkt i ua \<Rightarrow>
                      (if length (ua_Reasons ua) = 1 then
                         (if ua_Reasons ua ! 0 \<ge> 0x80 then
                            (c2, Some ua,
                             Some (ErrUnsubscribeFailed
                               (case ua_ReasonString ua of None \<Rightarrow> [] | Some r \<Rightarrow> r)))
                          else (c2, Some ua, None))
                       else
                         (if list_ex (\<lambda>code. code \<ge> 0x80) (ua_Reasons ua)
                          then (c2, Some ua, Some ErrUnsubscriptionFailed)
                          else (c2, Some ua, None)))
                  | _ \<Rightarrow> (c2, None, Some (ErrNotUnsuback (Type (Some uap))))))))"

subsection \<open>Publish\<close>

text \<open>
  \<^verbatim>\<open>Client.publishQoS12\<close>. A nil semaphore (no Connect before) panics. The
  permit is released where the source calls \<^verbatim>\<open>Release\<close>, and nowhere else.
\<close>

definition publishQoS12 ::
  "Client \<Rightarrow> Publish_msg \<Rightarrow> ControlPacket select \<Rightarrow>
     Client \<times> PublishResponse option \<times> error option" where
  "publishQoS12 c pb sel =
     (case serverInflight c of
        None \<Rightarrow> (c, None, Some Panic)
      | Some sem \<Rightarrow>
         (case Acquire sem of
            (Some e, _) \<Rightarrow> (c, None, Some e)
          | (None, sem') \<Rightarrow>
             (let c0 = c\<lparr>serverInflight := Some sem'\<rparr>;
                  (mid, m) = Request (MIDs c0);
                  c1 = c0\<lparr>MIDs := m\<rparr>;
                  (werr, c2) = WriteTo (PublishPkt mid pb) c1
              in (case werr of
                    Some e \<Rightarrow> (c2, None, Some e)
                  | None \<Rightarrow>
                     (case sel of
                        DoneDeadline \<Rightarrow> (c2, None, Some DeadlineExceeded)
                      | _ \<Rightarrow>
                         (let resp = (case sel of Recv r \<Rightarrow> Some r | _ \<Rightarrow> None) in
                          if pb_QoS pb = 1 then
                            (case resp of
                               Some (PubackPkt i rc) \<Rightarrow>
                                 (case Release sem' of
                                    None \<Rightarrow> (c2, None, Some Panic)
                                  | Some sem'' \<Rightarrow>
                                     (let c3 = c2\<lparr>serverInflight := Some sem''\<rparr>;
                                          pr = \<lparr>pr_ReasonCode = rc\<rparr>
                                      in if pr_ReasonCode pr \<ge> 0x80
                                         then (c3, Some pr, Some (ErrPublishing rc))
                                         else (c3, Some pr, None)))
                             | _ \<Rightarrow> (c2, None, Some (ErrNotPuback (Type resp))))
                          else if pb_QoS pb = 2 then
                            (case resp of
                               Some (PubcompPkt i rc) \<Rightarrow>
                                 (case Release sem' of
                                    None \<Rightarrow> (c2, None, Some Panic)
                                  | Some sem'' \<Rightarrow>
                                     (c2\<lparr>serverInflight := Some sem''\<rparr>,
                                      Some \<lparr>pr_ReasonCode = rc\<rparr>, None))
                             | Some (PubrecPkt i rc) \<Rightarrow>
                                 (case Release sem' of
                                    None \<Rightarrow> (c2, None, Some Panic)
                                  | Some sem'' \<Rightarrow>
                                     (c2\<lparr>serverInflight := Some sem''\<rparr>,
                                      Some \<lparr>pr_ReasonCode = rc\<rparr>, None))
                             | _ \<Rightarrow> (c2, None, Some (ErrNotPubcomp (Type resp))))
                          else (c2, None, Some (ErrNonQoS12 (pb_QoS pb)))))))))"

text \<open>\<^verbatim>\<open>Client.Publish\<close>: the three checks against the server's properties, then the dispatch on the QoS.\<close>

definition Publish ::
  "Client \<Rightarrow> Publish_msg \<Rightarrow> ControlPacket select \<Rightarrow>
     Client \<times> PublishResponse option \<times> error option" where
  "Publish c p sel =
     (if pb_QoS p > MaximumQoS (serverProps c)
      then (c, None, Some (ErrMaxQoS (pb_QoS p) (MaximumQoS (serverProps c))))
      else
        (case (case pb_TopicAlias p of
                 Some (Some a) \<Rightarrow>
                   (if TopicAliasMaximum (serverProps c) > 0 \<and>
                       a > TopicAliasMaximum (serverProps c)
                    then Some (ErrTopicAlias a (TopicAliasMaximum (serverProps c)))
                    else None)
               | _ \<Rightarrow> None) of
           Some e \<Rightarrow> (c, None, Some e)
         | None \<Rightarrow>
            (if \<not> RetainAvailable (serverProps c) \<and> pb_Retain p
             then (c, None, Some ErrNoRetain)
             else if pb_QoS p = 0 then
               (case WriteTo (PublishPkt 0 p) c of
                  (Some e, c') \<Rightarrow> (c', None, Some e)
                | (None, c') \<Rightarrow> (c', None, None))
             else if pb_QoS p = 1 \<or> pb_QoS p = 2 then publishQoS12 c p sel
             else (c, None, Some ErrOops))))"

subsection \<open>Disconnect\<close>

text \<open>
  \<^verbatim>\<open>Client.Disconnect\<close>: write the DISCONNECT and return the write's error; the
  deferred \<^verbatim>\<open>Close\<close> runs on every call.
\<close>

definition Disconnect :: "Client \<Rightarrow> Disconnect_msg \<Rightarrow> Client \<times> error option" where
  "Disconnect c d =
     (case WriteTo (DisconnectPkt d) c of
        (err, c') \<Rightarrow> (c'\<lparr>Conn := map_option conn_Close (Conn c')\<rparr>, err))"

subsection \<open>Incoming\<close>

text \<open>
  What one turn of the reader's loop does after the packet is read. \<open>Next\<close>: go on
  to the next read; \<open>Return\<close>: the function returns; \<open>Blocked\<close>: a send on a full
  reply channel never returns.
\<close>

datatype ctl = Next | Return | Blocked

definition deliver :: "ControlPacket \<Rightarrow> uint16 \<Rightarrow> Client \<Rightarrow> ctl \<times> Client" where
  "deliver recv i c =
     (case Get (MIDs c) i of
        None \<Rightarrow> (Next, c)
      | Some buf \<Rightarrow>
         (case send recv buf of
            None \<Rightarrow> (Blocked, c)
          | Some buf' \<Rightarrow>
             (Next, c\<lparr>MIDs := (MIDs c)\<lparr>index := (index (MIDs c))(i \<mapsto> buf')\<rparr>\<rparr>)))"

fun dispatch :: "ControlPacket \<Rightarrow> Client \<Rightarrow> ctl \<times> Client" where
  "dispatch (ConnackPkt cap) c =
     (case caCtx c of
        None \<Rightarrow> (Next, c)
      | Some buf \<Rightarrow>
         (case send cap buf of
            None \<Rightarrow> (Blocked, c)
          | Some buf' \<Rightarrow> (Next, c\<lparr>caCtx := Some buf'\<rparr>)))"
| "dispatch (AuthPkt ap) c =
     (if au_ReasonCode ap = 0x0 then
        (let c1 = (case AuthHandler c of None \<Rightarrow> c
                   | Some h \<Rightarrow> c\<lparr>authenticated := Suc (authenticated c)\<rparr>)
         in (case raCtx c1 of
               None \<Rightarrow> (Next, c1)
             | Some buf \<Rightarrow>
                (case send (AuthPkt ap) buf of
                   None \<Rightarrow> (Blocked, c1)
                 | Some buf' \<Rightarrow> (Next, c1\<lparr>raCtx := Some buf'\<rparr>))))
      else if au_ReasonCode ap = 0x18 then
        (case AuthHandler c of
           None \<Rightarrow> (Next, c)
         | Some h \<Rightarrow>
            (case WriteTo (AuthPkt (h ap)) c of
               (Some e, c') \<Rightarrow> (Return, Error c')
             | (None, c') \<Rightarrow> (Next, c')))
      else (Next, c))"
| "dispatch (PublishPkt i pb) c =
     (let c1 = c\<lparr>routed := routed c @ [pb]\<rparr> in
      if pb_QoS pb = 1 then (Next, snd (WriteTo (PubackPkt i 0) c1))
      else if pb_QoS pb = 2 then (Next, snd (WriteTo (PubrecPkt i 0) c1))
      else (Next, c1))"
| "dispatch (PubackPkt i rc) c = deliver (PubackPkt i rc) i c"
| "dispatch (PubcompPkt i rc) c = deliver (PubcompPkt i rc) i c"
| "dispatch (SubackPkt i sa) c = deliver (SubackPkt i sa) i c"
| "dispatch (UnsubackPkt i ua) c = deliver (UnsubackPkt i ua) i c"
| "dispatch (PubrecPkt i rc) c =
     (case Get (MIDs c) i of
        None \<Rightarrow> (Next, snd (WriteTo (PubrelPkt i 0x92) c))
      | Some buf \<Rightarrow>
         (if rc \<ge> 0x80 then deliver (PubrecPkt i rc) i c
          else (Next, snd (WriteTo (PubrelPkt i 0) c))))"
| "dispatch (PubrelPkt i rc) c =
     (if rc < 0x80 then (Next, c)
      else (Next, snd (WriteTo (PubcompPkt i 0) c)))"
| "dispatch (DisconnectPkt d) c =
     (let c1 = (if OnDisconnect c then c\<lparr>disconnected := disconnected c @ [d]\<rparr> else c)
      in (case raCtx c1 of
            None \<Rightarrow> (Next, Error c1)
          | Some buf \<Rightarrow>
             (case send (DisconnectPkt d) buf of
                None \<Rightarrow> (Blocked, c1)
              | Some buf' \<Rightarrow> (Next, Error (c1\<lparr>raCtx := Some buf'\<rparr>)))))"
| "dispatch _ c = (Next, c)"

text \<open>
  \<^verbatim>\<open>Client.Incoming\<close> over the packets the transport still has to deliver. Each
  turn first looks at the stop channel; a read from a closed or exhausted
  transport is an error, which calls \<^verbatim>\<open>Error\<close> and returns.
\<close>

fun Incoming :: "ControlPacket list \<Rightarrow> Client \<Rightarrow> Client" where
  "Incoming [] c = (if stop c then c else Error c)"
| "Incoming (recv # rest) c =
     (if stop c then c
      else if (case Conn c of None \<Rightarrow> True | Some k \<Rightarrow> conn_closed k) then Error c
      else (case dispatch recv c of
              (Next, c') \<Rightarrow> Incoming rest c'
            | (_, c') \<Rightarrow> c'))"

subsection \<open>Scenario values\<close>

text \<open>
  A transport on which nothing has happened yet, a new client attached to it (its
  registry hands out id 1), the CONNECT of the listener, and a CONNACK with reason 0,
  ReceiveMaximum 10 and the assigned client id c17.
\<close>

definition open_conn :: conn where
  "open_conn = \<lparr>wire = [], conn_closed = False, close_calls = 0\<rparr>"

definition attached :: Client where
  "attached = (NewClient (\<lambda>_. 1))\<lparr>Conn := Some open_conn\<rparr>"

definition listen1 :: Connect_msg where
  "listen1 = \<lparr>cp_KeepAlive = 30, cp_ClientID = ''listen1'', cp_Properties = None\<rparr>"

definition connack_props :: ConnackProperties where
  "connack_props =
     \<lparr>ca_ServerKeepAlive = None, ca_AssignedClientID = ''c17'', ca_ReasonString = [],
      ca_ReceiveMaximum = Some 10, ca_MaximumQoS = None, ca_MaximumPacketSize = None,
      ca_TopicAliasMaximum = None, ca_RetainAvailable = True,
      ca_WildcardSubAvailable = True, ca_SubIDAvailable = True,
      ca_SharedSubAvailable = True\<rparr>"

definition connack10 :: Connack where
  "connack10 = \<lparr>ca_ReasonCode = 0, ca_Properties = Some connack_props\<rparr>"

definition established :: Client where
  "established = fst (Connect attached listen1 (Recv connack10))"

definition message :: "byte \<Rightarrow> Publish_msg" where
  "message q =
     \<lparr>pb_QoS = q, pb_Retain = False, pb_Topic = ''t'', pb_TopicAlias = None,
      pb_Payload = [109]\<rparr>"

text \<open>
  A CONNACK of a server that offers little: QoS 1 at most, packets of one byte at
  most, topic aliases up to 5, and none of retain, wildcards, subscription
  identifiers and shared subscriptions; and the client connected with it.
\<close>

definition connack_limited :: Connack where
  "connack_limited =
     \<lparr>ca_ReasonCode = 0,
      ca_Properties = Some
        \<lparr>ca_ServerKeepAlive = Some 60, ca_AssignedClientID = [], ca_ReasonString = [],
         ca_ReceiveMaximum = None, ca_MaximumQoS = Some 1, ca_MaximumPacketSize = Some 1,
         ca_TopicAliasMaximum = Some 5, ca_RetainAvailable = False,
         ca_WildcardSubAvailable = False, ca_SubIDAvailable = False,
         ca_SharedSubAvailable = False\<rparr>\<rparr>"

definition limited :: Client where
  "limited = fst (Connect attached listen1 (Recv connack_limited))"

definition subscription :: "string \<Rightarrow> uint32 option option \<Rightarrow> Subscribe_msg" where
  "subscription t ident = \<lparr>Subscriptions = [(t, 0)], sub_SubscriptionIdentifier = ident\<rparr>"

definition suback :: "byte list \<Rightarrow> Suback" where
  "suback rs = \<lparr>sa_Reasons = rs, sa_ReasonString = Some ''quota''\<rparr>"

definition unsuback :: "byte list \<Rightarrow> Unsuback" where
  "unsuback rs = \<lparr>ua_Reasons = rs, ua_ReasonString = None\<rparr>"

definition bye :: Disconnect_msg where
  "bye = \<lparr>dc_ReasonCode = 0, dc_ReasonString = []\<rparr>"

definition oversized :: Publish_msg where
  "oversized =
     \<lparr>pb_QoS = 0, pb_Retain = False, pb_Topic = ''a/b'', pb_TopicAlias = None,
      pb_Payload = [120, 121, 122]\<rparr>"

section \<open>Properties\<close>

subsection \<open>Auxiliary facts\<close>

lemma established_eq:
  "established =
     \<lparr>caCtx = None, raCtx = None, stop = False, workers = 2,
      serverProps =
        \<lparr>ReceiveMaximum = 10, MaximumQoS = 2, MaximumPacketSize = 0,
         TopicAliasMaximum = 0, RetainAvailable = True, WildcardSubAvailable = True,
         SubIDAvailable = True, SharedSubAvailable = True\<rparr>,
      clientProps =
        \<lparr>ReceiveMaximum = 65535, MaximumQoS = 2, MaximumPacketSize = 0,
         TopicAliasMaximum = 0, RetainAvailable = False, WildcardSubAvailable = False,
         SubIDAvailable = False, SharedSubAvailable = False\<rparr>,
      serverInflight = Some \<lparr>w_size = 10, w_cur = 0\<rparr>,
      clientInflight = Some \<lparr>w_size = 65535, w_cur = 0\<rparr>,
      ClientID = ''c17'',
      Conn = Some \<lparr>wire = [ConnectPkt ''MQTT'' 5 listen1], conn_closed = False,
                    close_calls = 0\<rparr>,
      MIDs = \<lparr>index = Map.empty, alloc = (\<lambda>_. 1)\<rparr>,
      AuthHandler = None, authenticated = 0, pinger = Some 30, pinger_stops = 0,
      routed = [], OnDisconnect = False, disconnected = []\<rparr>"
  by (simp add: established_def Connect_def attached_def NewClient_def open_conn_def
      listen1_def connack10_def connack_props_def WriteTo_def conn_WriteTo_def
      client_props_def server_props_def NewWeighted_def)

lemma IndexAny_iff: "IndexAny t chars > -1 \<longleftrightarrow> (\<exists>x\<in>set t. x \<in> set chars)"
  by (induction t) (auto simp: Let_def)

lemma HasPrefix_iff: "HasPrefix t pre \<longleftrightarrow> (\<exists>r. t = pre @ r)"
  unfolding HasPrefix_def
  by (metis append_eq_conv_conj append_take_drop_id length_append le_add1)

lemma limited_eq:
  "limited =
     \<lparr>caCtx = None, raCtx = None, stop = False, workers = 2,
      serverProps =
        \<lparr>ReceiveMaximum = 65535, MaximumQoS = 1, MaximumPacketSize = 1,
         TopicAliasMaximum = 5, RetainAvailable = False, WildcardSubAvailable = False,
         SubIDAvailable = False, SharedSubAvailable = False\<rparr>,
      clientProps =
        \<lparr>ReceiveMaximum = 65535, MaximumQoS = 2, MaximumPacketSize = 0,
         TopicAliasMaximum = 0, RetainAvailable = False, WildcardSubAvailable = False,
         SubIDAvailable = False, SharedSubAvailable = False\<rparr>,
      serverInflight = Some \<lparr>w_size = 65535, w_cur = 0\<rparr>,
      clientInflight = Some \<lparr>w_size = 65535, w_cur = 0\<rparr>,
      ClientID = ''listen1'',
      Conn = Some \<lparr>wire = [ConnectPkt ''MQTT'' 5 listen1], conn_closed = False,
                    close_calls = 0\<rparr>,
      MIDs = \<lparr>index = Map.empty, alloc = (\<lambda>_. 1)\<rparr>,
      AuthHandler = None, authenticated = 0, pinger = Some 60, pinger_stops = 0,
      routed = [], OnDisconnect = False, disconnected = []\<rparr>"
  by (simp add: limited_def Connect_def attached_def NewClient_def open_conn_def
      listen1_def connack_limited_def WriteTo_def conn_WriteTo_def
      client_props_def server_props_def NewWeighted_def)

lemma find_wild_None:
  "find (\<lambda>t. IndexAny t ''#+'' > -1) ts = None \<longleftrightarrow>
     (\<forall>t\<in>set ts. \<forall>ch\<in>set t. ch \<noteq> CHR ''#'' \<and> ch \<noteq> CHR ''+'')"
  by (auto simp: find_None_iff IndexAny_iff)

lemma find_share_None:
  "find (\<lambda>t. HasPrefix t ''$share'') ts = None \<longleftrightarrow>
     (\<forall>t\<in>set ts. \<forall>r. t \<noteq> ''$share'' @ r)"
  by (auto simp: find_None_iff HasPrefix_iff)

text \<open>
  A Subscribe that passes the three checks on an open transport writes its SUBSCRIBE
  and waits; what it returns for the packet it then receives.
\<close>

lemma Subscribe_waits:
  assumes conn: "Conn c = Some k" "\<not> conn_closed k"
    and wild: "WildcardSubAvailable (serverProps c) \<or>
               (\<forall>t\<in>set (map fst (Subscriptions s)). \<forall>ch\<in>set t. ch \<noteq> CHR ''#'' \<and> ch \<noteq> CHR ''+'')"
    and subid: "SubIDAvailable (serverProps c) \<or> (\<forall>n. sub_SubscriptionIdentifier s \<noteq> Some (Some n))"
    and share: "SharedSubAvailable (serverProps c) \<or>
               (\<forall>t\<in>set (map fst (Subscriptions s)). \<forall>r. t \<noteq> ''$share'' @ r)"
  shows "snd (Subscribe c s (Recv p)) =
     (case p of
        SubackPkt i sa \<Rightarrow>
          (if length (sa_Reasons sa) = 1 then
             (if sa_Reasons sa ! 0 \<ge> 0x80 then
                (Some sa, Some (ErrSubscribeFailed (case sa_ReasonString sa of None \<Rightarrow> [] | Some r \<Rightarrow> r)))
              else (Some sa, None))
           else (if list_ex (\<lambda>code. code \<ge> 0x80) (sa_Reasons sa)
                 then (Some sa, Some ErrSubscriptionFailed) else (Some sa, None)))
      | _ \<Rightarrow> (None, Some (ErrNotSuback (Type (Some p)))))"
proof -
  have w: "(if \<not> WildcardSubAvailable (serverProps c)
            then find (\<lambda>t. IndexAny t ''#+'' > -1) (map fst (Subscriptions s)) else None) = None"
    using wild by (auto simp: find_wild_None simp del: set_map)
  have h: "(if \<not> SharedSubAvailable (serverProps c)
            then find (\<lambda>t. HasPrefix t ''$share'') (map fst (Subscriptions s)) else None) = None"
    using share by (auto simp: find_share_None simp del: set_map)
  have i: "\<not> (\<not> SubIDAvailable (serverProps c) \<and>
             (case sub_SubscriptionIdentifier s of Some (Some _) \<Rightarrow> True | _ \<Rightarrow> False))"
    using subid by (auto split: option.splits)
  show ?thesis
    unfolding Subscribe_def w h using i conn
    by (simp add: Request_def WriteTo_def conn_WriteTo_def Let_def
        split: ControlPacket.splits prod.splits)
qed


lemma find_SomeD: "find P xs = Some x \<Longrightarrow> x \<in> set xs \<and> P x"
  by (induction xs) (auto split: if_splits)

lemma find_wild_Some:
  assumes "\<exists>t\<in>set ts. \<exists>ch\<in>set t. ch = CHR ''#'' \<or> ch = CHR ''+''"
  obtains t where "find (\<lambda>t. IndexAny t ''#+'' > -1) ts = Some t" "t \<in> set ts"
    "\<exists>ch\<in>set t. ch = CHR ''#'' \<or> ch = CHR ''+''"
proof -
  have "find (\<lambda>t. IndexAny t ''#+'' > -1) ts \<noteq> None"
    using assms by (simp add: find_wild_None)
  then obtain t where t: "find (\<lambda>t. IndexAny t ''#+'' > -1) ts = Some t" by blast
  from find_SomeD [OF t] have "t \<in> set ts" "\<exists>ch\<in>set t. ch = CHR ''#'' \<or> ch = CHR ''+''"
    by (auto simp: IndexAny_iff)
  with t show thesis using that by blast
qed

lemma find_share_Some:
  assumes "\<exists>t\<in>set ts. \<exists>r. t = ''$share'' @ r"
  obtains t where "find (\<lambda>t. HasPrefix t ''$share'') ts = Some t" "t \<in> set ts"
    "\<exists>r. t = ''$share'' @ r"
proof -
  have "find (\<lambda>t. HasPrefix t ''$share'') ts \<noteq> None"
    using assms by (simp add: find_share_None)
  then obtain t where t: "find (\<lambda>t. HasPrefix t ''$share'') ts = Some t" by blast
  from find_SomeD [OF t] have "t \<in> set ts" "\<exists>r. t = ''$share'' @ r"
    by (auto simp: HasPrefix_iff)
  with t show thesis using that by blast
qed


lemma Subscribe_wildcard:
  assumes "\<not> WildcardSubAvailable (serverProps c)"
    and "find (\<lambda>t. IndexAny t ''#+'' > -1) (map fst (Subscriptions s)) = Some t"
  shows "Subscribe c s sel = (c, None, Some (ErrNoWildcards t))"
  unfolding Subscribe_def using assms by simp


lemma Subscribe_subid:
  assumes "(if \<not> WildcardSubAvailable (serverProps c)
            then find (\<lambda>t. IndexAny t ''#+'' > -1) (map fst (Subscriptions s)) else None) = None"
    and "\<not> SubIDAvailable (serverProps c)" and "sub_SubscriptionIdentifier s = Some (Some n)"
  shows "Subscribe c s sel = (c, None, Some ErrNoSubID)"
  unfolding Subscribe_def assms(1) using assms(2,3) by simp

lemma Subscribe_shared:
  assumes "(if \<not> WildcardSubAvailable (serverProps c)
            then find (\<lambda>t. IndexAny t ''#+'' > -1) (map fst (Subscriptions s)) else None) = None"
    and "SubIDAvailable (serverProps c) \<or> (\<forall>n. sub_SubscriptionIdentifier s \<noteq> Some (Some n))"
    and "\<not> SharedSubAvailable (serverProps c)"
    and "find (\<lambda>t. HasPrefix t ''$share'') (map fst (Subscriptions s)) = Some t"
  shows "Subscribe c s sel = (c, None, Some (ErrNoSharedSub t))"
proof -
  have i: "\<not> (\<not> SubIDAvailable (serverProps c) \<and>
             (case sub_SubscriptionIdentifier s of Some (Some _) \<Rightarrow> True | _ \<Rightarrow> False))"
    using assms(2) by (auto split: option.splits)
  show ?thesis
    unfolding Subscribe_def assms(1) using i assms(3,4) by simp
qed


lemma Connect_established:
  "Connect attached listen1 (Recv connack10) = (established, Some connack10, None)"
  unfolding established_eq
  by (simp add: Connect_def attached_def NewClient_def open_conn_def
      listen1_def connack10_def connack_props_def WriteTo_def conn_WriteTo_def
      client_props_def server_props_def NewWeighted_def)

lemma Unsubscribe_waits:
  assumes "Conn c = Some k" "\<not> conn_closed k"
  shows "snd (Unsubscribe c u (Recv p)) =
     (case p of
        UnsubackPkt i ua \<Rightarrow>
          (if length (ua_Reasons ua) = 1 then
             (if ua_Reasons ua ! 0 \<ge> 0x80 then
                (Some ua, Some (ErrUnsubscribeFailed (case ua_ReasonString ua of None \<Rightarrow> [] | Some r \<Rightarrow> r)))
              else (Some ua, None))
           else (if list_ex (\<lambda>code. code \<ge> 0x80) (ua_Reasons ua)
                 then (Some ua, Some ErrUnsubscriptionFailed) else (Some ua, None)))
      | _ \<Rightarrow> (None, Some (ErrNotUnsuback (Type (Some p)))))"
  unfolding Unsubscribe_def using assms
  by (simp add: Request_def WriteTo_def conn_WriteTo_def Let_def
      split: ControlPacket.splits prod.splits)

lemma Disconnect_each_call:
  "Conn c = Some k \<Longrightarrow>
     Disconnect c d =
       (if conn_closed k
        then (c\<lparr>Conn := Some (k\<lparr>conn_closed := True, close_calls := Suc (close_calls k)\<rparr>)\<rparr>,
              Some ErrClosedConn)
        else (c\<lparr>Conn := Some (k\<lparr>wire := wire k @ [DisconnectPkt d], conn_closed := True,
                                 close_calls := Suc (close_calls k)\<rparr>)\<rparr>, None))"
  by (simp add: Disconnect_def WriteTo_def conn_WriteTo_def conn_Close_def)

lemma Incoming_closed:
  "\<not> stop c \<Longrightarrow> Conn c = Some k \<Longrightarrow> conn_closed k \<Longrightarrow> Incoming inbound c = Error c"
  by (cases inbound) simp_all

lemma Publish_qos:
  "pb_QoS p > MaximumQoS (serverProps c) \<Longrightarrow>
     Publish c p sel = (c, None, Some (ErrMaxQoS (pb_QoS p) (MaximumQoS (serverProps c))))"
  unfolding Publish_def by simp

lemma Publish_alias:
  "\<not> pb_QoS p > MaximumQoS (serverProps c) \<Longrightarrow> pb_TopicAlias p = Some (Some a) \<Longrightarrow>
   TopicAliasMaximum (serverProps c) > 0 \<Longrightarrow> a > TopicAliasMaximum (serverProps c) \<Longrightarrow>
     Publish c p sel = (c, None, Some (ErrTopicAlias a (TopicAliasMaximum (serverProps c))))"
  unfolding Publish_def by simp

lemma Publish_retain:
  assumes "\<not> pb_QoS p > MaximumQoS (serverProps c)"
    and "\<forall>a. pb_TopicAlias p = Some (Some a) \<longrightarrow>
           TopicAliasMaximum (serverProps c) = 0 \<or> a \<le> TopicAliasMaximum (serverProps c)"
    and "\<not> RetainAvailable (serverProps c)" and "pb_Retain p"
  shows "Publish c p sel = (c, None, Some ErrNoRetain)"
proof -
  have "(case pb_TopicAlias p of
                 Some (Some a) \<Rightarrow>
                   (if TopicAliasMaximum (serverProps c) > 0 \<and>
                       a > TopicAliasMaximum (serverProps c)
                    then Some (ErrTopicAlias a (TopicAliasMaximum (serverProps c)))
                    else None)
               | _ \<Rightarrow> None) = None"
    using assms(2) by (auto split: option.splits simp: word_gt_0 not_less)
  then show ?thesis
    unfolding Publish_def using assms(1,3,4) by simp
qed

lemma publishQoS12_ignores_size:
  "snd (publishQoS12 (c\<lparr>serverProps := (serverProps c)\<lparr>MaximumPacketSize := m\<rparr>\<rparr>) p sel)
     = snd (publishQoS12 c p sel) \<and>
   Conn (fst (publishQoS12 (c\<lparr>serverProps := (serverProps c)\<lparr>MaximumPacketSize := m\<rparr>\<rparr>) p sel))
     = Conn (fst (publishQoS12 c p sel))"
  unfolding publishQoS12_def
  by (simp add: Request_def WriteTo_def conn_WriteTo_def Let_def
      split: option.splits prod.splits select.splits ControlPacket.splits)

lemma Publish_ignores_size:
  "snd (Publish (c\<lparr>serverProps := (serverProps c)\<lparr>MaximumPacketSize := m\<rparr>\<rparr>) p sel)
     = snd (Publish c p sel) \<and>
   Conn (fst (Publish (c\<lparr>serverProps := (serverProps c)\<lparr>MaximumPacketSize := m\<rparr>\<rparr>) p sel))
     = Conn (fst (Publish c p sel))"
  unfolding Publish_def using publishQoS12_ignores_size [where c = c and m = m and p = p and sel = sel]
  by (simp add: WriteTo_def conn_WriteTo_def split: option.splits prod.splits)

subsection \<open>Connect\<close>

text \<open>
  C9. A Connect on a client whose \<^verbatim>\<open>Conn\<close> is nil returns the error "Client
  connection is nil" at once, with no CONNACK, and leaves the client as it was:
  nothing is written (there is no transport), no goroutine is added to the
  workers, and no field of the session changes.
\<close>

theorem Connect_nil_conn:
  "Conn c = None \<Longrightarrow> Connect c cp sel = (c, None, Some ErrConnNil)"
  by (simp add: Connect_def)

theorem Connect_nil_conn_witness:
  "Conn (NewClient (\<lambda>_. 1)) = None \<and>
   Connect (NewClient (\<lambda>_. 1)) listen1 (Recv connack10)
     = (NewClient (\<lambda>_. 1), None, Some ErrConnNil)"
proof -
  have h: "Conn (NewClient (\<lambda>_. 1)) = None" by (simp add: NewClient_def)
  show ?thesis using h Connect_nil_conn [OF h, of listen1 "Recv connack10"] by simp
qed

text \<open>
  C3, as the source has it. A Connect on an open transport that receives a CONNACK
  with a reason code below 0x80 returns the CONNACK and a nil error. The client id
  is the one the CONNACK assigns, when it assigns one, and the keep-alive handed to
  the pinger is the server's, when the CONNACK carries one. The server properties
  are those of the CONNACK: each of ReceiveMaximum, MaximumQoS, MaximumPacketSize
  and TopicAliasMaximum where the CONNACK carries it (the value held before
  otherwise), and the four availability flags as the CONNACK has them; a CONNACK
  with no properties changes none of them. The server-facing window is sized to
  the server's ReceiveMaximum so obtained. The client-facing window is sized to the
  client's own ReceiveMaximum: that of the CONNECT properties when set, the value
  held before otherwise.
\<close>

theorem Connect_connack_success:
  assumes "Conn c = Some k" and "\<not> conn_closed k" and "ca_ReasonCode ca < 0x80"
    and "Connect c cp (Recv ca) = (c', r)"
  shows "r = (Some ca, None) \<and>
     ClientID c' =
       (case ca_Properties ca of None \<Rightarrow> cp_ClientID cp
        | Some p \<Rightarrow> if ca_AssignedClientID p \<noteq> [] then ca_AssignedClientID p
                    else cp_ClientID cp) \<and>
     pinger c' =
       Some (case ca_Properties ca of None \<Rightarrow> cp_KeepAlive cp
             | Some p \<Rightarrow> (case ca_ServerKeepAlive p of None \<Rightarrow> cp_KeepAlive cp
                          | Some v \<Rightarrow> v)) \<and>
     serverProps c' =
       (case ca_Properties ca of None \<Rightarrow> serverProps c
        | Some p \<Rightarrow>
           \<lparr>ReceiveMaximum = (case ca_ReceiveMaximum p of
                None \<Rightarrow> ReceiveMaximum (serverProps c) | Some v \<Rightarrow> v),
            MaximumQoS = (case ca_MaximumQoS p of
                None \<Rightarrow> MaximumQoS (serverProps c) | Some v \<Rightarrow> v),
            MaximumPacketSize = (case ca_MaximumPacketSize p of
                None \<Rightarrow> MaximumPacketSize (serverProps c) | Some v \<Rightarrow> v),
            TopicAliasMaximum = (case ca_TopicAliasMaximum p of
                None \<Rightarrow> TopicAliasMaximum (serverProps c) | Some v \<Rightarrow> v),
            RetainAvailable = ca_RetainAvailable p,
            WildcardSubAvailable = ca_WildcardSubAvailable p,
            SubIDAvailable = ca_SubIDAvailable p,
            SharedSubAvailable = ca_SharedSubAvailable p\<rparr>) \<and>
     ReceiveMaximum (clientProps c') =
       (case cp_Properties cp of None \<Rightarrow> ReceiveMaximum (clientProps c)
        | Some q \<Rightarrow> (case cp_ReceiveMaximum q of
             None \<Rightarrow> ReceiveMaximum (clientProps c) | Some v \<Rightarrow> v)) \<and>
     serverInflight c' = Some \<lparr>w_size = uint (ReceiveMaximum (serverProps c')), w_cur = 0\<rparr> \<and>
     clientInflight c' = Some \<lparr>w_size = uint (ReceiveMaximum (clientProps c')), w_cur = 0\<rparr>"
proof -
  have ge: "\<not> 0x80 \<le> ca_ReasonCode ca" using assms(3) by simp
  have c': "c' = fst (Connect c cp (Recv ca))" and r: "r = snd (Connect c cp (Recv ca))"
    using assms(4) by simp_all
  show ?thesis
    unfolding c' r Connect_def using assms(1,2) ge
    by (simp add: WriteTo_def conn_WriteTo_def client_props_def server_props_def
        NewWeighted_def Let_def split: option.splits)
qed


theorem Connect_connack_success_witness:
  "ClientID established = ''c17'' \<and> pinger established = Some 30 \<and>
   ReceiveMaximum (serverProps established) = 10 \<and>
   ReceiveMaximum (clientProps established) = 65535 \<and>
   serverInflight established = Some \<lparr>w_size = 10, w_cur = 0\<rparr> \<and>
   clientInflight established = Some \<lparr>w_size = 65535, w_cur = 0\<rparr>"
proof -
  have a: "Conn attached = Some open_conn" "\<not> conn_closed open_conn"
    "ca_ReasonCode connack10 < 0x80"
    by (simp_all add: attached_def open_conn_def connack10_def)
  from Connect_connack_success [OF a Connect_established]
  show ?thesis
    by (simp add: attached_def NewClient_def listen1_def connack10_def connack_props_def)
qed

text \<open>
  Against C3 as stated: after the CONNACK with reason 0 and ReceiveMaximum 10, the
  server-facing window has capacity 10 and the client-facing one 65535.
\<close>

theorem Connect_client_window_not_peer_sized:
  "ca_ReasonCode connack10 < 0x80 \<and>
   map_option ca_ReceiveMaximum (ca_Properties connack10) = Some (Some 10) \<and>
   snd (Connect attached listen1 (Recv connack10)) = (Some connack10, None) \<and>
   serverInflight (fst (Connect attached listen1 (Recv connack10)))
     = Some \<lparr>w_size = 10, w_cur = 0\<rparr> \<and>
   clientInflight (fst (Connect attached listen1 (Recv connack10)))
     = Some \<lparr>w_size = 65535, w_cur = 0\<rparr>"
  by (simp add: Connect_established established_eq) (simp add: connack10_def connack_props_def)

subsection \<open>Incoming\<close>

text \<open>
  C1. The source answers a PUBREL the other way round. On the established client,
  an inbound PUBREL with packet id 7 and reason code 0 writes nothing (the turn of
  the loop ends at \<^verbatim>\<open>continue\<close>), and one with reason code 0x80 is answered with a
  PUBCOMP for id 7. The comment of the source says "Auto respond to pubrels unless
  failure code".
\<close>

theorem Incoming_pubrel_polarity:
  "map_option wire (Conn (snd (dispatch (PubrelPkt 7 0) established)))
     = Some [ConnectPkt ''MQTT'' 5 listen1] \<and>
   map_option wire (Conn (Incoming [PubrelPkt 7 0] established))
     = Some [ConnectPkt ''MQTT'' 5 listen1] \<and>
   map_option wire (Conn (Incoming [PubrelPkt 7 0x80] established))
     = Some [ConnectPkt ''MQTT'' 5 listen1, PubcompPkt 7 0]"
  by (simp add: established_eq WriteTo_def conn_WriteTo_def Error_def conn_Close_def)

subsection \<open>Publish\<close>

text \<open>
  C4, as the source has it. Publish rejects, before the registry or the transport
  is touched (the client returned is the client given): a QoS above the server's
  MaximumQoS; then a topic alias above the server's TopicAliasMaximum, when that is
  above 0; then a set retain flag when the server has no retained messages. The
  server's MaximumPacketSize is not looked at: with any other value of it, Publish
  returns the same and leaves the same on the transport.
\<close>

theorem Publish_preflight:
  "(pb_QoS p > MaximumQoS (serverProps c) \<longrightarrow>
      Publish c p sel = (c, None, Some (ErrMaxQoS (pb_QoS p) (MaximumQoS (serverProps c))))) \<and>
   (pb_QoS p \<le> MaximumQoS (serverProps c) \<and> pb_TopicAlias p = Some (Some a) \<and>
    TopicAliasMaximum (serverProps c) > 0 \<and> a > TopicAliasMaximum (serverProps c) \<longrightarrow>
      Publish c p sel = (c, None, Some (ErrTopicAlias a (TopicAliasMaximum (serverProps c))))) \<and>
   (pb_QoS p \<le> MaximumQoS (serverProps c) \<and>
    (\<forall>a. pb_TopicAlias p = Some (Some a) \<longrightarrow>
       TopicAliasMaximum (serverProps c) = 0 \<or> a \<le> TopicAliasMaximum (serverProps c)) \<and>
    \<not> RetainAvailable (serverProps c) \<and> pb_Retain p \<longrightarrow>
      Publish c p sel = (c, None, Some ErrNoRetain)) \<and>
   snd (Publish (c\<lparr>serverProps := (serverProps c)\<lparr>MaximumPacketSize := m\<rparr>\<rparr>) p sel)
     = snd (Publish c p sel) \<and>
   Conn (fst (Publish (c\<lparr>serverProps := (serverProps c)\<lparr>MaximumPacketSize := m\<rparr>\<rparr>) p sel))
     = Conn (fst (Publish c p sel))"
  using Publish_ignores_size [where c = c and p = p and sel = sel and m = m] Publish_qos [where c = c and p = p and sel = sel]
    Publish_alias [where c = c and p = p and sel = sel and a = a]
    Publish_retain [where c = c and p = p and sel = sel]
  by (simp add: not_less)

theorem Publish_preflight_witness:
  "Publish limited (message 2) DoneDeadline = (limited, None, Some (ErrMaxQoS 2 1)) \<and>
   Publish limited ((message 1)\<lparr>pb_TopicAlias := Some (Some 6)\<rparr>) DoneDeadline
     = (limited, None, Some (ErrTopicAlias 6 5)) \<and>
   Publish limited ((message 1)\<lparr>pb_Retain := True\<rparr>) DoneDeadline
     = (limited, None, Some ErrNoRetain)"
proof -
  have p: "MaximumQoS (serverProps limited) = 1" "TopicAliasMaximum (serverProps limited) = 5"
    "\<not> RetainAvailable (serverProps limited)"
    by (simp_all add: limited_eq)
  have a: "Publish limited (message 2) DoneDeadline = (limited, None, Some (ErrMaxQoS 2 1))"
    using Publish_preflight [where p = "message 2" and c = limited and sel = DoneDeadline and a = 0] p
    by (simp add: message_def)
  have b: "Publish limited ((message 1)\<lparr>pb_TopicAlias := Some (Some 6)\<rparr>) DoneDeadline
     = (limited, None, Some (ErrTopicAlias 6 5))"
    using Publish_preflight [where p = "(message 1)\<lparr>pb_TopicAlias := Some (Some 6)\<rparr>" and c = limited
        and sel = DoneDeadline and a = 6] p
    by (simp add: message_def)
  have c: "Publish limited ((message 1)\<lparr>pb_Retain := True\<rparr>) DoneDeadline
     = (limited, None, Some ErrNoRetain)"
    using Publish_preflight [where p = "(message 1)\<lparr>pb_Retain := True\<rparr>" and c = limited
        and sel = DoneDeadline and a = 0] p
    by (simp add: message_def)
  from a b c show ?thesis by blast
qed

text \<open>
  Against C4 as stated: the server allows packets of one byte, and a QoS 0
  publication with a payload of three bytes is written to the transport and
  returns no error.
\<close>

theorem Publish_oversized_is_written:
  "MaximumPacketSize (serverProps limited) = 1 \<and> length (pb_Payload oversized) = 3 \<and>
   snd (Publish limited oversized DoneDeadline) = (None, None) \<and>
   map_option wire (Conn (fst (Publish limited oversized DoneDeadline)))
     = Some [ConnectPkt ''MQTT'' 5 listen1, PublishPkt 0 oversized]"
  by (simp add: limited_eq oversized_def Publish_def WriteTo_def conn_WriteTo_def)

text \<open>
  C2. A QoS 2 Publish on the established client that is answered by a PUBREC with
  reason code 0x80 releases its permit and returns the response holding the code
  together with a nil error, where the QoS 1 path returns an error for a PUBACK of
  0x80 and above.
\<close>

theorem publish_qos2_pubrec_error_returns_nil:
  "snd (Publish established (message 2) (Recv (PubrecPkt 1 0x80)))
     = (Some \<lparr>pr_ReasonCode = 0x80\<rparr>, None) \<and>
   serverInflight (fst (Publish established (message 2) (Recv (PubrecPkt 1 0x80))))
     = Some \<lparr>w_size = 10, w_cur = 0\<rparr>"
  by (simp add: established_eq message_def Publish_def publishQoS12_def Acquire_def Release_def
      Request_def WriteTo_def conn_WriteTo_def)

text \<open>
  C5. A QoS 1 Publish on the established client whose deadline passes before a
  response returns \<^verbatim>\<open>context.DeadlineExceeded\<close>, and the permit it acquired stays
  held: the window that had no permit out before the call has one out after it.
\<close>

theorem publish_qos1_timeout_keeps_permit:
  "serverInflight established = Some \<lparr>w_size = 10, w_cur = 0\<rparr> \<and>
   snd (Publish established (message 1) DoneDeadline) = (None, Some DeadlineExceeded) \<and>
   serverInflight (fst (Publish established (message 1) DoneDeadline))
     = Some \<lparr>w_size = 10, w_cur = 1\<rparr>"
  by (simp add: established_eq message_def Publish_def publishQoS12_def Acquire_def Release_def
      Request_def WriteTo_def conn_WriteTo_def)

subsection \<open>Subscribe\<close>

text \<open>
  C6. A Subscribe that passes the capability checks, writes its SUBSCRIBE and then
  receives a packet on its waiter returns as follows. For a SUBACK whose reason
  codes are all below 0x80: the SUBACK and a nil error. For a SUBACK with the single
  reason code \<open>code\<close> of 0x80 or above: the SUBACK (holding the code) and the error
  "Failed to subscribe to topic: ..." with the SUBACK's reason string (empty when
  it has no properties). For a SUBACK with several reason codes, one of them 0x80
  or above: the SUBACK, holding all the reason codes, and the error "At least one
  requested subscription failed". For a packet that is no SUBACK: no SUBACK and
  the error "Received ... instead of Suback" with the packet's type.
\<close>

theorem Subscribe_suback_outcomes:
  assumes "Conn c = Some k" and "\<not> conn_closed k"
    and "WildcardSubAvailable (serverProps c) \<or>
         (\<forall>t\<in>set (map fst (Subscriptions s)). \<forall>ch\<in>set t. ch \<noteq> CHR ''#'' \<and> ch \<noteq> CHR ''+'')"
    and "SubIDAvailable (serverProps c) \<or> (\<forall>n. sub_SubscriptionIdentifier s \<noteq> Some (Some n))"
    and "SharedSubAvailable (serverProps c) \<or>
         (\<forall>t\<in>set (map fst (Subscriptions s)). \<forall>r. t \<noteq> ''$share'' @ r)"
  shows
    "((\<forall>code\<in>set (sa_Reasons sa). code < 0x80) \<longrightarrow>
        snd (Subscribe c s (Recv (SubackPkt i sa))) = (Some sa, None)) \<and>
     (sa_Reasons sa = [code] \<and> code \<ge> 0x80 \<longrightarrow>
        snd (Subscribe c s (Recv (SubackPkt i sa))) =
          (Some sa, Some (ErrSubscribeFailed
             (case sa_ReasonString sa of None \<Rightarrow> [] | Some r \<Rightarrow> r)))) \<and>
     (length (sa_Reasons sa) \<noteq> 1 \<and> (\<exists>code\<in>set (sa_Reasons sa). code \<ge> 0x80) \<longrightarrow>
        snd (Subscribe c s (Recv (SubackPkt i sa))) = (Some sa, Some ErrSubscriptionFailed)) \<and>
     ((\<forall>j a. p \<noteq> SubackPkt j a) \<longrightarrow>
        snd (Subscribe c s (Recv p)) = (None, Some (ErrNotSuback (Type (Some p)))))"
proof (intro conjI impI)
  note w = Subscribe_waits [OF assms]
  show "snd (Subscribe c s (Recv (SubackPkt i sa))) = (Some sa, None)"
    if ok: "\<forall>code\<in>set (sa_Reasons sa). code < 0x80"
  proof -
    have "\<not> list_ex (\<lambda>code. code \<ge> 0x80) (sa_Reasons sa)"
      using ok by (auto simp: list_ex_iff)
    moreover have "length (sa_Reasons sa) = 1 \<Longrightarrow> \<not> sa_Reasons sa ! 0 \<ge> 0x80"
      using ok by (cases "sa_Reasons sa") auto
    ultimately show ?thesis by (auto simp: w)
  qed
  show "snd (Subscribe c s (Recv (SubackPkt i sa))) =
          (Some sa, Some (ErrSubscribeFailed
             (case sa_ReasonString sa of None \<Rightarrow> [] | Some r \<Rightarrow> r)))"
    if "sa_Reasons sa = [code] \<and> code \<ge> 0x80"
    using that by (simp add: w)
  show "snd (Subscribe c s (Recv (SubackPkt i sa))) = (Some sa, Some ErrSubscriptionFailed)"
    if "length (sa_Reasons sa) \<noteq> 1 \<and> (\<exists>code\<in>set (sa_Reasons sa). code \<ge> 0x80)"
    using that by (simp add: w list_ex_iff)
  show "snd (Subscribe c s (Recv p)) = (None, Some (ErrNotSuback (Type (Some p))))"
    if "\<forall>j a. p \<noteq> SubackPkt j a"
    using that by (cases p) (simp_all add: w)
qed

theorem Subscribe_suback_outcomes_witness:
  "snd (Subscribe established (subscription ''rpc/request'' None) (Recv (SubackPkt 1 (suback [0, 1]))))
     = (Some (suback [0, 1]), None) \<and>
   snd (Subscribe established (subscription ''rpc/request'' None) (Recv (SubackPkt 1 (suback [0x97]))))
     = (Some (suback [0x97]), Some (ErrSubscribeFailed ''quota'')) \<and>
   snd (Subscribe established (subscription ''rpc/request'' None) (Recv (SubackPkt 1 (suback [0, 0x80]))))
     = (Some (suback [0, 0x80]), Some ErrSubscriptionFailed) \<and>
   snd (Subscribe established (subscription ''rpc/request'' None) (Recv (PubackPkt 1 0)))
     = (None, Some (ErrNotSuback 4))"
proof -
  let ?k = "\<lparr>wire = [ConnectPkt ''MQTT'' 5 listen1], conn_closed = False, close_calls = 0\<rparr>"
  let ?s = "subscription ''rpc/request'' None"
  have a: "Conn established = Some ?k" "\<not> conn_closed ?k"
    by (simp_all add: established_eq)
  have b: "WildcardSubAvailable (serverProps established) \<or>
         (\<forall>t\<in>set (map fst (Subscriptions ?s)). \<forall>ch\<in>set t. ch \<noteq> CHR ''#'' \<and> ch \<noteq> CHR ''+'')"
    "SubIDAvailable (serverProps established) \<or> (\<forall>n. sub_SubscriptionIdentifier ?s \<noteq> Some (Some n))"
    "SharedSubAvailable (serverProps established) \<or>
         (\<forall>t\<in>set (map fst (Subscriptions ?s)). \<forall>r. t \<noteq> ''$share'' @ r)"
    by (simp_all add: established_eq)
  note t = Subscribe_suback_outcomes [OF a b]
  show ?thesis
    using t [where sa = "suback [0, 1]" and i = 1 and p = "PubackPkt 1 0"]
      t [where sa = "suback [0x97]" and code = "0x97" and i = 1]
      t [where sa = "suback [0, 0x80]" and i = 1]
    by (simp add: suback_def)
qed


text \<open>
  C7. The capability checks of Subscribe run in the order wildcard, subscription
  identifier, shared subscription, and each returns before the registry or the
  transport is touched: the client returned is the client given, so no SUBSCRIBE
  is written. (1) The server has no wildcard subscriptions and some filter holds a
  \<open>#\<close> or a \<open>+\<close>: the error names such a filter. (2) The first check passes, the
  server has no subscription identifiers and one is set: the subscription
  identifier error. (3) The first two checks pass, the server has no shared
  subscriptions and some filter starts with \<open>$share\<close>: the error names such a
  filter.
\<close>

theorem Subscribe_validation_order:
  "(\<not> WildcardSubAvailable (serverProps c) \<and>
    (\<exists>t\<in>set (map fst (Subscriptions s)). \<exists>ch\<in>set t. ch = CHR ''#'' \<or> ch = CHR ''+'')
    \<longrightarrow> (\<exists>t\<in>set (map fst (Subscriptions s)).
           (\<exists>ch\<in>set t. ch = CHR ''#'' \<or> ch = CHR ''+'') \<and>
           Subscribe c s sel = (c, None, Some (ErrNoWildcards t)))) \<and>
   ((WildcardSubAvailable (serverProps c) \<or>
     (\<forall>t\<in>set (map fst (Subscriptions s)). \<forall>ch\<in>set t. ch \<noteq> CHR ''#'' \<and> ch \<noteq> CHR ''+'')) \<and>
    \<not> SubIDAvailable (serverProps c) \<and> sub_SubscriptionIdentifier s = Some (Some n)
    \<longrightarrow> Subscribe c s sel = (c, None, Some ErrNoSubID)) \<and>
   ((WildcardSubAvailable (serverProps c) \<or>
     (\<forall>t\<in>set (map fst (Subscriptions s)). \<forall>ch\<in>set t. ch \<noteq> CHR ''#'' \<and> ch \<noteq> CHR ''+'')) \<and>
    (SubIDAvailable (serverProps c) \<or> (\<forall>n. sub_SubscriptionIdentifier s \<noteq> Some (Some n))) \<and>
    \<not> SharedSubAvailable (serverProps c) \<and>
    (\<exists>t\<in>set (map fst (Subscriptions s)). \<exists>r. t = ''$share'' @ r)
    \<longrightarrow> (\<exists>t\<in>set (map fst (Subscriptions s)).
           (\<exists>r. t = ''$share'' @ r) \<and>
           Subscribe c s sel = (c, None, Some (ErrNoSharedSub t))))"
proof -
  define ts where "ts = map fst (Subscriptions s)"
  define nowild where "nowild \<longleftrightarrow> WildcardSubAvailable (serverProps c) \<or>
     (\<forall>t\<in>set ts. \<forall>ch\<in>set t. ch \<noteq> CHR ''#'' \<and> ch \<noteq> CHR ''+'')"
  have w: "(if \<not> WildcardSubAvailable (serverProps c)
            then find (\<lambda>t. IndexAny t ''#+'' > -1) (map fst (Subscriptions s)) else None) = None"
    if nowild
  proof (cases "WildcardSubAvailable (serverProps c)")
    case True
    then show ?thesis by simp
  next
    case False
    with that have "find (\<lambda>t. IndexAny t ''#+'' > -1) ts = None"
      unfolding nowild_def find_wild_None by blast
    with False show ?thesis by (simp only: ts_def if_True not_False_eq_True)
  qed
  have 1: "\<exists>t\<in>set ts. (\<exists>ch\<in>set t. ch = CHR ''#'' \<or> ch = CHR ''+'') \<and>
           Subscribe c s sel = (c, None, Some (ErrNoWildcards t))"
    if a: "\<not> WildcardSubAvailable (serverProps c)"
      and b: "\<exists>t\<in>set ts. \<exists>ch\<in>set t. ch = CHR ''#'' \<or> ch = CHR ''+''"
  proof -
    from b obtain t where t: "find (\<lambda>t. IndexAny t ''#+'' > -1) ts = Some t" "t \<in> set ts"
      "\<exists>ch\<in>set t. ch = CHR ''#'' \<or> ch = CHR ''+''"
      by (rule find_wild_Some)
    from Subscribe_wildcard [OF a t(1) [unfolded ts_def]] t(2,3) show ?thesis by blast
  qed
  have 2: "Subscribe c s sel = (c, None, Some ErrNoSubID)"
    if nowild and "\<not> SubIDAvailable (serverProps c)"
      and "sub_SubscriptionIdentifier s = Some (Some n)"
    using Subscribe_subid [OF w] that by blast
  have 3: "\<exists>t\<in>set ts. (\<exists>r. t = ''$share'' @ r) \<and>
           Subscribe c s sel = (c, None, Some (ErrNoSharedSub t))"
    if a: nowild
      and b: "SubIDAvailable (serverProps c) \<or> (\<forall>n. sub_SubscriptionIdentifier s \<noteq> Some (Some n))"
      and c: "\<not> SharedSubAvailable (serverProps c)"
      and d: "\<exists>t\<in>set ts. \<exists>r. t = ''$share'' @ r"
  proof -
    from d obtain t where t: "find (\<lambda>t. HasPrefix t ''$share'') ts = Some t" "t \<in> set ts"
      "\<exists>r. t = ''$share'' @ r"
      by (rule find_share_Some)
    from Subscribe_shared [OF w [OF a] b c t(1) [unfolded ts_def]] t(2,3) show ?thesis by blast
  qed
  from 1 2 3 show ?thesis
    unfolding nowild_def ts_def by blast
qed


theorem Subscribe_validation_order_witness:
  "Subscribe limited (subscription ''a/#'' (Some (Some 1))) DoneDeadline
     = (limited, None, Some (ErrNoWildcards ''a/#'')) \<and>
   Subscribe (limited\<lparr>serverProps := (serverProps limited)\<lparr>WildcardSubAvailable := True\<rparr>\<rparr>)
       (subscription ''$share/g/#'' (Some (Some 1))) DoneDeadline
     = (limited\<lparr>serverProps := (serverProps limited)\<lparr>WildcardSubAvailable := True\<rparr>\<rparr>,
        None, Some ErrNoSubID) \<and>
   Subscribe limited (subscription ''$share/g/t'' None) DoneDeadline
     = (limited, None, Some (ErrNoSharedSub ''$share/g/t''))"
proof -
  have p: "\<not> WildcardSubAvailable (serverProps limited)" "\<not> SubIDAvailable (serverProps limited)"
    "\<not> SharedSubAvailable (serverProps limited)"
    by (simp_all add: limited_eq)
  have a: "Subscribe limited (subscription ''a/#'' (Some (Some 1))) DoneDeadline
     = (limited, None, Some (ErrNoWildcards ''a/#''))"
    using Subscribe_validation_order [of limited "subscription ''a/#'' (Some (Some 1))" DoneDeadline 1] p
    by (simp add: subscription_def)
  have b: "Subscribe (limited\<lparr>serverProps := (serverProps limited)\<lparr>WildcardSubAvailable := True\<rparr>\<rparr>)
       (subscription ''$share/g/#'' (Some (Some 1))) DoneDeadline
     = (limited\<lparr>serverProps := (serverProps limited)\<lparr>WildcardSubAvailable := True\<rparr>\<rparr>,
        None, Some ErrNoSubID)"
    using Subscribe_validation_order [of "limited\<lparr>serverProps := (serverProps limited)\<lparr>WildcardSubAvailable := True\<rparr>\<rparr>"
        "subscription ''$share/g/#'' (Some (Some 1))" DoneDeadline 1] p
    by (simp add: subscription_def)
  have c: "Subscribe limited (subscription ''$share/g/t'' None) DoneDeadline
     = (limited, None, Some (ErrNoSharedSub ''$share/g/t''))"
    using Subscribe_validation_order [of limited "subscription ''$share/g/t'' None" DoneDeadline 1] p
    by (simp add: subscription_def)
  from a b c show ?thesis by blast
qed

text \<open>
  C10. A Subscribe that receives a SUBACK with no reason codes, and an Unsubscribe
  that receives an UNSUBACK with no reason codes, return the acknowledgement with a
  nil error.
\<close>

theorem empty_reasons_are_success:
  assumes "Conn c = Some k" and "\<not> conn_closed k"
    and "WildcardSubAvailable (serverProps c) \<or>
         (\<forall>t\<in>set (map fst (Subscriptions s)). \<forall>ch\<in>set t. ch \<noteq> CHR ''#'' \<and> ch \<noteq> CHR ''+'')"
    and "SubIDAvailable (serverProps c) \<or> (\<forall>n. sub_SubscriptionIdentifier s \<noteq> Some (Some n))"
    and "SharedSubAvailable (serverProps c) \<or>
         (\<forall>t\<in>set (map fst (Subscriptions s)). \<forall>r. t \<noteq> ''$share'' @ r)"
    and "sa_Reasons sa = []" and "ua_Reasons ua = []"
  shows "snd (Subscribe c s (Recv (SubackPkt i sa))) = (Some sa, None) \<and>
         snd (Unsubscribe c u (Recv (UnsubackPkt j ua))) = (Some ua, None)"
  using Subscribe_waits [OF assms(1-5), of "SubackPkt i sa"]
    Unsubscribe_waits [OF assms(1,2), of u "UnsubackPkt j ua"] assms(6,7)
  by simp

theorem empty_reasons_are_success_witness:
  "snd (Subscribe established (subscription ''rpc/request'' None) (Recv (SubackPkt 1 (suback []))))
     = (Some (suback []), None) \<and>
   snd (Unsubscribe established \<lparr>Topics = [''rpc/request'']\<rparr> (Recv (UnsubackPkt 1 (unsuback []))))
     = (Some (unsuback []), None)"
proof -
  let ?k = "\<lparr>wire = [ConnectPkt ''MQTT'' 5 listen1], conn_closed = False, close_calls = 0\<rparr>"
  let ?s = "subscription ''rpc/request'' None"
  have a: "Conn established = Some ?k" "\<not> conn_closed ?k"
    by (simp_all add: established_eq)
  have b: "WildcardSubAvailable (serverProps established) \<or>
         (\<forall>t\<in>set (map fst (Subscriptions ?s)). \<forall>ch\<in>set t. ch \<noteq> CHR ''#'' \<and> ch \<noteq> CHR ''+'')"
    "SubIDAvailable (serverProps established) \<or> (\<forall>n. sub_SubscriptionIdentifier ?s \<noteq> Some (Some n))"
    "SharedSubAvailable (serverProps established) \<or>
         (\<forall>t\<in>set (map fst (Subscriptions ?s)). \<forall>r. t \<noteq> ''$share'' @ r)"
    by (simp_all add: established_eq)
  have c: "sa_Reasons (suback []) = []" "ua_Reasons (unsuback []) = []"
    by (simp_all add: suback_def unsuback_def)
  show ?thesis
    by (rule empty_reasons_are_success [OF a b c])
qed

subsection \<open>Disconnect\<close>

text \<open>
  C8, as the source has it. On a connected client (open transport, reader
  running), the first Disconnect writes the DISCONNECT, returns nil and calls
  \<^verbatim>\<open>Close\<close>. A second Disconnect cannot write, returns the transport's error for
  the write, and calls \<^verbatim>\<open>Close\<close> again. The reader started by Connect finds the
  transport closed at its next read and calls \<^verbatim>\<open>Close\<close> once more through
  \<^verbatim>\<open>Error\<close>, whether its read comes between the two calls or after them. The two
  calls and the reader leave one DISCONNECT on the transport and three calls of
  \<^verbatim>\<open>Close\<close>.
\<close>

theorem Disconnect_twice:
  "Conn c = Some k \<and> \<not> conn_closed k \<and> \<not> stop c \<Longrightarrow>
     snd (Disconnect c d) = None \<and>
     Conn (fst (Disconnect c d)) =
       Some (k\<lparr>wire := wire k @ [DisconnectPkt d], conn_closed := True,
               close_calls := Suc (close_calls k)\<rparr>) \<and>
     snd (Disconnect (fst (Disconnect c d)) d') = Some ErrClosedConn \<and>
     snd (Disconnect (Incoming inbound (fst (Disconnect c d))) d') = Some ErrClosedConn \<and>
     Conn (fst (Disconnect (Incoming inbound (fst (Disconnect c d))) d')) =
       Some (k\<lparr>wire := wire k @ [DisconnectPkt d], conn_closed := True,
               close_calls := close_calls k + 3\<rparr>) \<and>
     Conn (Incoming inbound (fst (Disconnect (fst (Disconnect c d)) d'))) =
       Some (k\<lparr>wire := wire k @ [DisconnectPkt d], conn_closed := True,
               close_calls := close_calls k + 3\<rparr>)"
proof -
  assume a: "Conn c = Some k \<and> \<not> conn_closed k \<and> \<not> stop c"
  let ?k1 = "k\<lparr>wire := wire k @ [DisconnectPkt d], conn_closed := True,
               close_calls := Suc (close_calls k)\<rparr>"
  let ?c1 = "c\<lparr>Conn := Some ?k1\<rparr>"
  have first: "Disconnect c d = (?c1, None)"
    using a by (simp add: Disconnect_each_call)
  have c1: "Conn ?c1 = Some ?k1" "conn_closed ?k1" "\<not> stop ?c1"
    using a by simp_all
  have rd1: "Incoming inbound ?c1 = Error ?c1"
    by (rule Incoming_closed [OF c1(3) c1(1) c1(2)])
  let ?k2 = "?k1\<lparr>conn_closed := True, close_calls := Suc (close_calls ?k1)\<rparr>"
  have second: "Disconnect ?c1 d' = (?c1\<lparr>Conn := Some ?k2\<rparr>, Some ErrClosedConn)"
    using Disconnect_each_call [OF c1(1), of d'] by simp
  have e1: "Conn (Error ?c1) = Some ?k2"
    by (simp add: Error_def conn_Close_def)
  have third: "Disconnect (Error ?c1) d'
      = ((Error ?c1)\<lparr>Conn := Some (?k2\<lparr>conn_closed := True, close_calls := Suc (close_calls ?k2)\<rparr>)\<rparr>,
         Some ErrClosedConn)"
    using Disconnect_each_call [OF e1, of d'] by simp
  have c2: "Conn (?c1\<lparr>Conn := Some ?k2\<rparr>) = Some ?k2" "conn_closed ?k2"
    "\<not> stop (?c1\<lparr>Conn := Some ?k2\<rparr>)"
    using a by simp_all
  have rd2: "Incoming inbound (?c1\<lparr>Conn := Some ?k2\<rparr>) = Error (?c1\<lparr>Conn := Some ?k2\<rparr>)"
    by (rule Incoming_closed [OF c2(3) c2(1) c2(2)])
  show ?thesis
    unfolding first fst_conv snd_conv rd1 second third rd2
    by (simp add: Error_def conn_Close_def)
qed

theorem Disconnect_twice_witness:
  "snd (Disconnect established bye) = None \<and>
   snd (Disconnect (Incoming [] (fst (Disconnect established bye))) bye) = Some ErrClosedConn \<and>
   Conn (fst (Disconnect (Incoming [] (fst (Disconnect established bye))) bye)) =
       Some \<lparr>wire = [ConnectPkt ''MQTT'' 5 listen1, DisconnectPkt bye], conn_closed = True,
               close_calls = 3\<rparr> \<and>
   Conn (Incoming [] (fst (Disconnect (fst (Disconnect established bye)) bye))) =
       Some \<lparr>wire = [ConnectPkt ''MQTT'' 5 listen1, DisconnectPkt bye], conn_closed = True,
               close_calls = 3\<rparr>"
proof -
  let ?k = "\<lparr>wire = [ConnectPkt ''MQTT'' 5 listen1], conn_closed = False, close_calls = 0\<rparr>"
  have h: "Conn established = Some ?k \<and> \<not> conn_closed ?k \<and> \<not> stop established"
    by (simp add: established_eq)
  from Disconnect_twice [OF h, of bye bye "[]"] show ?thesis by simp
qed

text \<open>
  Against C8 as stated: on the established client, the second Disconnect returns
  the error of the failed write, and \<^verbatim>\<open>Close\<close> has been called on the transport
  three times once both calls and the reader's failing read are over.
\<close>

theorem Disconnect_twice_closes_thrice:
  "snd (Disconnect (Incoming [] (fst (Disconnect established bye))) bye) = Some ErrClosedConn \<and>
   map_option close_calls
     (Conn (fst (Disconnect (Incoming [] (fst (Disconnect established bye))) bye))) = Some 3 \<and>
   map_option close_calls
     (Conn (Incoming [] (fst (Disconnect (fst (Disconnect established bye)) bye)))) = Some 3"
  by (simp add: established_eq Disconnect_def WriteTo_def conn_WriteTo_def conn_Close_def
      Error_def)

end
